theory Spec2Isabelle
  imports Main "HOL-Library.Multiset"
begin

section \<open>Data model (app.py, section 2)\<close>

text \<open>
  A Python \<open>datetime.date\<close>: year, month and day. Strings are lists of characters, one
  \<open>char\<close> per character of the Python string.
\<close>

datatype date = Date int int int

text \<open>The rows of the two tables, \<open>users\<close> (class User) and \<open>projects\<close> (class Project).\<close>

record user =
  u_id :: int
  email :: string
  password :: string
  name :: string
  role :: string
  empresa :: "string option"

record project =
  p_id :: int
  p_name :: string
  status :: string
  start_date :: "date option"
  client_id :: int

text \<open>The database: both tables, each a list of rows in the order the store holds them.\<close>

record db =
  users :: "user list"
  projects :: "project list"

text \<open>
  The exceptions that leave a handler uncaught: \<open>ValueError\<close> from \<open>strptime\<close>, and
  SQLAlchemy's \<open>DataError\<close> and \<open>IntegrityError\<close> from \<open>db.session.commit()\<close>.
\<close>

datatype exn = ValueError | DataError | IntegrityError

section \<open>The store\<close>

text \<open>
  A \<open>String(n)\<close> column of the configured store (PostgreSQL, line 12): a longer value is
  rejected, unless the excess is all spaces, which the store cuts off.
\<close>

definition varchar :: "nat \<Rightarrow> string \<Rightarrow> exn + string" where
  "varchar n s =
     (if length s \<le> n then Inr s
      else if list_all (\<lambda>c. c = CHR '' '') (drop n s) then Inr (take n s)
      else Inl DataError)"

text \<open>Sequencing of steps that may raise: the first exception ends the computation.\<close>

definition and_then :: "exn + 'a \<Rightarrow> ('a \<Rightarrow> exn + 'b) \<Rightarrow> exn + 'b" where
  "and_then m f = (case m of Inl e \<Rightarrow> Inl e | Inr x \<Rightarrow> f x)"

text \<open>\<open>.first()\<close> of a query: the first row of the result, or \<open>None\<close>.\<close>

definition first :: "'a list \<Rightarrow> 'a option" where
  "first rows = (case rows of [] \<Rightarrow> None | r # _ \<Rightarrow> Some r)"

text \<open>\<open>User.query.filter_by(email=email)\<close>, \<open>User.query.filter_by(role=...)\<close>,
  \<open>Project.query.filter_by(client_id=...)\<close> and \<open>User.query.get(id)\<close>.\<close>

definition users_by_email :: "db \<Rightarrow> string \<Rightarrow> user list" where
  "users_by_email d e = filter (\<lambda>u. email u = e) (users d)"

definition users_by_role :: "db \<Rightarrow> string \<Rightarrow> user list" where
  "users_by_role d r = filter (\<lambda>u. role u = r) (users d)"

definition projects_by_client :: "db \<Rightarrow> int \<Rightarrow> project list" where
  "projects_by_client d i = filter (\<lambda>p. client_id p = i) (projects d)"

definition user_get :: "db \<Rightarrow> int \<Rightarrow> user option" where
  "user_get d i = first (filter (\<lambda>u. u_id u = i) (users d))"

text \<open>
  The primary key of a new row comes from the store's sequence. The model takes the
  successor of the largest key present: like the sequence's value, it is a key no row has.
\<close>

definition next_id :: "int list \<Rightarrow> int" where
  "next_id ids = fold max ids 0 + 1"

text \<open>
  \<open>db.session.add(User(...)); db.session.commit()\<close>: the columns are checked against their
  declared lengths (lines 30 to 34), the email against \<open>unique=True\<close>; the row is appended
  with a fresh id. A violation raises and leaves the table as it was.
\<close>

definition insert_user ::
  "db \<Rightarrow> string \<Rightarrow> string \<Rightarrow> string \<Rightarrow> string \<Rightarrow> string option \<Rightarrow> exn + db" where
  "insert_user d e pw n r emp =
     and_then (varchar 100 e) (\<lambda>e'.
     and_then (varchar 256 pw) (\<lambda>pw'.
     and_then (varchar 100 n) (\<lambda>n'.
     and_then (varchar 20 r) (\<lambda>r'.
     and_then (case emp of None \<Rightarrow> Inr None
               | Some c \<Rightarrow> and_then (varchar 100 c) (\<lambda>c'. Inr (Some c'))) (\<lambda>emp'.
       if users_by_email d e' \<noteq> [] then Inl IntegrityError
       else Inr (d\<lparr>users := users d @
              [\<lparr>u_id = next_id (map u_id (users d)), email = e', password = pw',
                name = n', role = r', empresa = emp'\<rparr>]\<rparr>))))))"

text \<open>
  \<open>db.session.add(Project(...)); db.session.commit()\<close>. The form's \<open>client_id\<close> is a string,
  which the store converts to the integer column: the conversion \<open>int_in\<close> is the store's
  and is a parameter here (\<open>None\<close>: the store rejects the text). The foreign key (line 60)
  needs a user with that id.
\<close>

definition insert_project ::
  "(string \<Rightarrow> int option) \<Rightarrow> db \<Rightarrow> string \<Rightarrow> string \<Rightarrow> date option \<Rightarrow> string \<Rightarrow> exn + db" where
  "insert_project int_in d n st sd cid =
     and_then (varchar 200 n) (\<lambda>n'.
     and_then (varchar 50 st) (\<lambda>st'.
     and_then (case int_in cid of None \<Rightarrow> Inl DataError | Some c \<Rightarrow> Inr c) (\<lambda>c.
       if user_get d c = None then Inl IntegrityError
       else Inr (d\<lparr>projects := projects d @
              [\<lparr>p_id = next_id (map p_id (projects d)), p_name = n', status = st',
                start_date = sd, client_id = c\<rparr>]\<rparr>))))"

section \<open>Dates\<close>

text \<open>
  \<open>datetime.strptime(s, '%Y-%m-%d')\<close> matches the text against the pattern the format stands
  for: \<open>%Y\<close> is four digits, \<open>%m\<close> is \<open>1[0-2]|0[1-9]|[1-9]\<close>, \<open>%d\<close> is
  \<open>3[0-1]|[1-2]\d|0[1-9]|[1-9]| [1-9]\<close>, with the hyphens between them. Each matcher returns
  the number read and the rest of the text.
\<close>

definition digit :: "char \<Rightarrow> bool" where
  "digit c = (c \<in> set ''0123456789'')"

definition digit19 :: "char \<Rightarrow> bool" where
  "digit19 c = (c \<in> set ''123456789'')"

definition dval :: "char \<Rightarrow> int" where
  "dval c = of_char c - 48"

fun match_Y :: "string \<Rightarrow> (int \<times> string) option" where
  "match_Y (a # b # c # e # r) =
     (if digit a \<and> digit b \<and> digit c \<and> digit e
      then Some (1000 * dval a + 100 * dval b + 10 * dval c + dval e, r) else None)"
| "match_Y _ = None"

fun match_m :: "string \<Rightarrow> (int \<times> string) option" where
  "match_m (a # b # r) =
     (if a = CHR ''1'' \<and> b \<in> set ''012'' then Some (10 + dval b, r)
      else if a = CHR ''0'' \<and> digit19 b then Some (dval b, r)
      else if digit19 a then Some (dval a, b # r)
      else None)"
| "match_m [a] = (if digit19 a then Some (dval a, []) else None)"
| "match_m [] = None"

fun match_d :: "string \<Rightarrow> (int \<times> string) option" where
  "match_d (a # b # r) =
     (if a = CHR ''3'' \<and> b \<in> set ''01'' then Some (30 + dval b, r)
      else if a \<in> set ''12'' \<and> digit b then Some (10 * dval a + dval b, r)
      else if a = CHR ''0'' \<and> digit19 b then Some (dval b, r)
      else if digit19 a then Some (dval a, b # r)
      else if a = CHR '' '' \<and> digit19 b then Some (dval b, r)
      else None)"
| "match_d [a] = (if digit19 a then Some (dval a, []) else None)"
| "match_d [] = None"

fun hyphen :: "string \<Rightarrow> string option" where
  "hyphen (c # r) = (if c = CHR ''-'' then Some r else None)"
| "hyphen [] = None"

text \<open>The constructor \<open>datetime.date(y, m, d)\<close>: \<open>ValueError\<close> unless the date exists.\<close>

definition is_leap :: "int \<Rightarrow> bool" where
  "is_leap y = (y mod 4 = 0 \<and> (y mod 100 \<noteq> 0 \<or> y mod 400 = 0))"

definition days_in_month :: "int \<Rightarrow> int \<Rightarrow> int" where
  "days_in_month y m =
     (if m = 2 then (if is_leap y then 29 else 28)
      else if m = 4 \<or> m = 6 \<or> m = 9 \<or> m = 11 then 30 else 31)"

definition make_date :: "int \<Rightarrow> int \<Rightarrow> int \<Rightarrow> exn + date" where
  "make_date y m d =
     (if 1 \<le> y \<and> y \<le> 9999 \<and> 1 \<le> m \<and> m \<le> 12 \<and> 1 \<le> d \<and> d \<le> days_in_month y m
      then Inr (Date y m d) else Inl ValueError)"

text \<open>
  \<open>datetime.strptime(start_date_str, '%Y-%m-%d').date()\<close> (line 197): \<open>ValueError\<close> when the
  text does not match, when text remains after the day, or when the date does not exist.
\<close>

definition strptime :: "string \<Rightarrow> exn + date" where
  "strptime s =
     (case match_Y s of None \<Rightarrow> Inl ValueError | Some (y, s1) \<Rightarrow>
     (case hyphen s1 of None \<Rightarrow> Inl ValueError | Some s2 \<Rightarrow>
     (case match_m s2 of None \<Rightarrow> Inl ValueError | Some (m, s3) \<Rightarrow>
     (case hyphen s3 of None \<Rightarrow> Inl ValueError | Some s4 \<Rightarrow>
     (case match_d s4 of None \<Rightarrow> Inl ValueError | Some (d, s5) \<Rightarrow>
        if s5 = [] then make_date y m d else Inl ValueError)))))"

text \<open>The order of dates: by year, then month, then day.\<close>

fun date_le :: "date \<Rightarrow> date \<Rightarrow> bool" where
  "date_le (Date y1 m1 d1) (Date y2 m2 d2) =
     (y1 < y2 \<or> (y1 = y2 \<and> (m1 < m2 \<or> (m1 = m2 \<and> d1 \<le> d2))))"

text \<open>
  \<open>Project.query.order_by(Project.start_date.desc()).all()\<close> (line 152). The query names no
  place for NULL, so the store's default holds: PostgreSQL sorts NULL as larger than every
  value, hence first in descending order. \<open>desc_before a b\<close>: a row with start date \<open>a\<close>
  may stand before one with \<open>b\<close>. Rows that compare equal keep their table order.
\<close>

fun desc_before :: "date option \<Rightarrow> date option \<Rightarrow> bool" where
  "desc_before None _ = True"
| "desc_before (Some a) None = False"
| "desc_before (Some a) (Some b) = date_le b a"

fun insert_desc :: "project \<Rightarrow> project list \<Rightarrow> project list" where
  "insert_desc p [] = [p]"
| "insert_desc p (q # qs) =
     (if desc_before (start_date q) (start_date p) then q # insert_desc p qs
      else p # q # qs)"

definition order_by_start_date_desc :: "project list \<Rightarrow> project list" where
  "order_by_start_date_desc ps = foldr insert_desc ps []"

section \<open>Requests, sessions and responses\<close>

datatype http_method = GET | POST

text \<open>\<open>request.form\<close>: the submitted fields. Reading a field the request does not have
  (\<open>request.form['email']\<close>) ends the request with 400 Bad Request.\<close>

type_synonym form = "string \<Rightarrow> string option"

text \<open>
  What a handler returns: a rendered template with the data passed to it, a redirect to an
  endpoint (\<open>redirect(url_for(...))\<close>), 400, or the server error an uncaught exception
  becomes.
\<close>

datatype page =
    Index_html
  | Login_html
  | Register_html
  | Dashboard_html string "project list"
  | Admin_html "user list" "project list"

datatype response = Render page | Redirect string | BadRequest | ServerError exn

text \<open>The queries a request sends to the store, in order.\<close>

datatype query =
    Get_user int
  | Select_users_by_email string
  | Select_users_by_role string
  | Select_projects_by_client int
  | Select_projects_by_start_date_desc
  | Insert_user
  | Insert_project

text \<open>
  The effects of a request: the response, the messages flashed (message and category), the
  session after it (the id of the logged-in user, if any), the database after it and the
  queries sent.
\<close>

record outcome =
  response :: response
  flashed :: "(string \<times> string) list"
  session :: "int option"
  store :: db
  queries :: "query list"

definition reply ::
  "response \<Rightarrow> (string \<times> string) list \<Rightarrow> int option \<Rightarrow> db \<Rightarrow> query list \<Rightarrow> outcome" where
  "reply r fl s d qs = \<lparr>response = r, flashed = fl, session = s, store = d, queries = qs\<rparr>"

text \<open>The texts of the flashed messages (lines 20, 95, 108, 114, 132, 180, 210).\<close>

definition login_message :: string where
  "login_message =
     ''Por favor, inicia sesi'' @ [CHR 0xF3] @ ''n para acceder a esta p'' @ [CHR 0xE1] @ ''gina.''"


definition msg_duplicate :: string where
  "msg_duplicate = ''Ese correo electr'' @ [CHR 0xF3] @ ''nico ya est'' @ [CHR 0xE1] @ '' registrado.''"

definition msg_registered :: string where
  "msg_registered =
     [CHR 0xA1] @ ''Cuenta creada exitosamente! Ahora puedes iniciar sesi'' @ [CHR 0xF3] @ ''n.''"

definition msg_unauthorized :: string where
  "msg_unauthorized = ''Acceso no autorizado.''"

definition msg_client_created :: string where
  "msg_client_created = [CHR 0xA1] @ ''Cliente creado exitosamente!''"

definition msg_project_created :: string where
  "msg_project_created = [CHR 0xA1] @ ''Proyecto creado y asignado exitosamente!''"

section \<open>Flask-Login (app.py, section 3)\<close>

text \<open>
  \<open>current_user\<close>: the user \<open>load_user\<close> finds for the id in the session, if there is one;
  \<open>None\<close> is the anonymous user. \<open>load_queries\<close> is the query this costs.
\<close>

definition current_user :: "db \<Rightarrow> int option \<Rightarrow> user option" where
  "current_user d s = (case s of None \<Rightarrow> None | Some i \<Rightarrow> user_get d i)"

definition load_queries :: "int option \<Rightarrow> query list" where
  "load_queries s = (case s of None \<Rightarrow> [] | Some i \<Rightarrow> [Get_user i])"

text \<open>
  \<open>@login_required\<close>: without an authenticated user the view is not called; the login
  manager flashes \<open>login_message\<close> and redirects to \<open>login_view\<close> (lines 19 and 20).
\<close>

definition login_required ::
  "(user \<Rightarrow> db \<Rightarrow> int option \<Rightarrow> query list \<Rightarrow> outcome) \<Rightarrow> db \<Rightarrow> int option \<Rightarrow> outcome" where
  "login_required view d s =
     (case current_user d s of
        None \<Rightarrow> reply (Redirect ''login'') [(login_message, ''message'')] s d (load_queries s)
      | Some u \<Rightarrow> view u d s (load_queries s))"

section \<open>Passwords (lines 40 to 44)\<close>

text \<open>
  \<open>generate_password_hash\<close> and \<open>check_password_hash\<close> are werkzeug's, not this
  repository's: they are parameters of the model. The first draws a random salt; here the
  salt is an argument, so the function is \<open>generate_password_hash salt plaintext\<close>.
  \<open>set_password\<close> gives the value assigned to \<open>self.password\<close>.
\<close>

definition set_password :: "(string \<Rightarrow> string \<Rightarrow> string) \<Rightarrow> string \<Rightarrow> string \<Rightarrow> string" where
  "set_password generate_password_hash salt password_plana =
     generate_password_hash salt password_plana"


section \<open>Public routes (app.py, section 4)\<close>

definition index :: "db \<Rightarrow> int option \<Rightarrow> outcome" where
  "index d s = reply (Render Index_html) [] s d []"


definition register ::
  "(string \<Rightarrow> string \<Rightarrow> string) \<Rightarrow> string \<Rightarrow> http_method \<Rightarrow> form \<Rightarrow> db \<Rightarrow> int option \<Rightarrow> outcome" where
  "register generate_password_hash salt method f d s =
     (if method = POST then
        (case f ''email'' of None \<Rightarrow> reply BadRequest [] s d [] | Some em \<Rightarrow>
        (case f ''name'' of None \<Rightarrow> reply BadRequest [] s d [] | Some nm \<Rightarrow>
        (case f ''password'' of None \<Rightarrow> reply BadRequest [] s d [] | Some password_plana \<Rightarrow>
        (case first (users_by_email d em) of
           Some existing_user \<Rightarrow>
             reply (Redirect ''register'') [(msg_duplicate, ''error'')] s d
               [Select_users_by_email em]
         | None \<Rightarrow>
            (case insert_user d em (set_password generate_password_hash salt password_plana)
                    nm ''client'' None of
               Inl e \<Rightarrow> reply (ServerError e) [] s d [Select_users_by_email em, Insert_user]
             | Inr d' \<Rightarrow>
                 reply (Redirect ''login'') [(msg_registered, ''success'')] s d'
                   [Select_users_by_email em, Insert_user])))))
      else reply (Render Register_html) [] s d [])"

definition logout :: "db \<Rightarrow> int option \<Rightarrow> outcome" where
  "logout = login_required (\<lambda>u d s qs. reply (Redirect ''index'') [] None d qs)"

section \<open>Private routes (app.py, section 5)\<close>

definition client_dashboard :: "db \<Rightarrow> int option \<Rightarrow> outcome" where
  "client_dashboard = login_required (\<lambda>u d s qs.
     if role u \<noteq> ''client'' then
       reply (Redirect ''index'') [(msg_unauthorized, ''error'')] s d qs
     else
       reply (Render (Dashboard_html (name u) (projects_by_client d (u_id u)))) [] s d
         (qs @ [Select_projects_by_client (u_id u)]))"

definition admin_dashboard :: "db \<Rightarrow> int option \<Rightarrow> outcome" where
  "admin_dashboard = login_required (\<lambda>u d s qs.
     if role u \<noteq> ''admin'' then
       reply (Redirect ''index'') [(msg_unauthorized, ''error'')] s d qs
     else
       reply (Render (Admin_html (users_by_role d ''client'')
                        (order_by_start_date_desc (projects d)))) [] s d
         (qs @ [Select_users_by_role ''client'', Select_projects_by_start_date_desc]))"

definition create_client ::
  "(string \<Rightarrow> string \<Rightarrow> string) \<Rightarrow> string \<Rightarrow> form \<Rightarrow> db \<Rightarrow> int option \<Rightarrow> outcome" where
  "create_client generate_password_hash salt f = login_required (\<lambda>u d s qs.
     if role u \<noteq> ''admin'' then reply (Redirect ''index'') [] s d qs
     else
       (case f ''nombre'' of None \<Rightarrow> reply BadRequest [] s d qs | Some nombre \<Rightarrow>
       (case f ''apellido'' of None \<Rightarrow> reply BadRequest [] s d qs | Some apellido \<Rightarrow>
       (case f ''email'' of None \<Rightarrow> reply BadRequest [] s d qs | Some em \<Rightarrow>
       (case f ''password'' of None \<Rightarrow> reply BadRequest [] s d qs | Some password_plana \<Rightarrow>
       (case f ''empresa'' of None \<Rightarrow> reply BadRequest [] s d qs | Some emp \<Rightarrow>
       (case first (users_by_email d em) of
          Some existing_user \<Rightarrow>
            reply (Redirect ''admin_dashboard'') [(msg_duplicate, ''error'')] s d
              (qs @ [Select_users_by_email em])
        | None \<Rightarrow>
           (case insert_user d em (set_password generate_password_hash salt password_plana)
                   (nombre @ '' '' @ apellido) ''client'' (Some emp) of
              Inl e \<Rightarrow>
                reply (ServerError e) [] s d (qs @ [Select_users_by_email em, Insert_user])
            | Inr d' \<Rightarrow>
                reply (Redirect ''admin_dashboard'') [(msg_client_created, ''success'')] s d'
                  (qs @ [Select_users_by_email em, Insert_user])))))))))"

definition create_project ::
  "(string \<Rightarrow> int option) \<Rightarrow> form \<Rightarrow> db \<Rightarrow> int option \<Rightarrow> outcome" where
  "create_project int_in f = login_required (\<lambda>u d s qs.
     if role u \<noteq> ''admin'' then reply (Redirect ''index'') [] s d qs
     else
       (case f ''project_name'' of None \<Rightarrow> reply BadRequest [] s d qs | Some project_name \<Rightarrow>
       (case f ''status'' of None \<Rightarrow> reply BadRequest [] s d qs | Some st \<Rightarrow>
       (case f ''start_date'' of None \<Rightarrow> reply BadRequest [] s d qs | Some start_date_str \<Rightarrow>
       (case f ''client_id'' of None \<Rightarrow> reply BadRequest [] s d qs | Some cid \<Rightarrow>
       (case strptime start_date_str of
          Inl e \<Rightarrow> reply (ServerError e) [] s d qs
        | Inr sd \<Rightarrow>
           (case insert_project int_in d project_name st (Some sd) cid of
              Inl e \<Rightarrow> reply (ServerError e) [] s d (qs @ [Insert_project])
            | Inr d' \<Rightarrow>
                reply (Redirect ''admin_dashboard'') [(msg_project_created, ''success'')] s d'
                  (qs @ [Insert_project]))))))))"

section \<open>Start-up (app.py, section 6)\<close>



definition register_form :: "string \<Rightarrow> string \<Rightarrow> string \<Rightarrow> form" where
  "register_form em nm pw = [''email'' \<mapsto> em, ''name'' \<mapsto> nm, ''password'' \<mapsto> pw]"

definition client_form :: "string \<Rightarrow> string \<Rightarrow> string \<Rightarrow> string \<Rightarrow> string \<Rightarrow> form" where
  "client_form nombre apellido em pw emp =
     [''nombre'' \<mapsto> nombre, ''apellido'' \<mapsto> apellido, ''email'' \<mapsto> em,
      ''password'' \<mapsto> pw, ''empresa'' \<mapsto> emp]"

definition project_form :: "string \<Rightarrow> string \<Rightarrow> string \<Rightarrow> string \<Rightarrow> form" where
  "project_form project_name st start_date_str cid =
     [''project_name'' \<mapsto> project_name, ''status'' \<mapsto> st,
      ''start_date'' \<mapsto> start_date_str, ''client_id'' \<mapsto> cid]"

section \<open>Notions the properties use\<close>

text \<open>The queries that read projects or the list of clients (lines 136, 149 and 152).\<close>

fun data_query :: "query \<Rightarrow> bool" where
  "data_query (Select_users_by_role r) = True"
| "data_query (Select_projects_by_client i) = True"
| "data_query Select_projects_by_start_date_desc = True"
| "data_query q = False"


text \<open>
  A database to run the handlers on: the administrator, two clients, a user whose role
  is neither, and three projects, one of them without a start date. The stored passwords
  are those of the hash function \<open>example_hash\<close> with salt \<open>na\<close>.
\<close>

definition example_hash :: "string \<Rightarrow> string \<Rightarrow> string" where
  "example_hash salt p = salt @ ''$'' @ p"


definition example_db :: db where
  "example_db = \<lparr>users =
     [\<lparr>u_id = 1, email = ''admin@consultoria.py'', password = ''na$admin123'',
        name = ''Administrador'', role = ''admin'', empresa = Some ''PY''\<rparr>,
      \<lparr>u_id = 2, email = ''c@x.com'', password = ''na$pw1'', name = ''Ana'',
        role = ''client'', empresa = None\<rparr>,
      \<lparr>u_id = 3, email = ''d@x.com'', password = ''na$pw2'', name = ''Beto'',
        role = ''client'', empresa = None\<rparr>,
      \<lparr>u_id = 4, email = ''e@x.com'', password = ''na$pw3'', name = ''Eva'',
        role = ''auditor'', empresa = None\<rparr>],
    projects =
     [\<lparr>p_id = 1, p_name = ''Web'', status = ''Pendiente'',
        start_date = Some (Date 2024 1 1), client_id = 2\<rparr>,
      \<lparr>p_id = 2, p_name = ''App'', status = ''Pendiente'',
        start_date = None, client_id = 3\<rparr>,
      \<lparr>p_id = 3, p_name = ''Red'', status = ''Completado'',
        start_date = Some (Date 2024 1 2), client_id = 2\<rparr>]\<rparr>"



section \<open>Auxiliary facts\<close>

lemmas handler_defs = login_required_def reply_def current_user_def load_queries_def

lemma first_filter_Some: "first (filter P xs) = Some x \<Longrightarrow> P x \<and> x \<in> set xs"
proof -
  assume "first (filter P xs) = Some x"
  then obtain ys where "filter P xs = x # ys"
    by (cases "filter P xs") (simp_all add: first_def)
  then have "x \<in> set (filter P xs)" by simp
  then show ?thesis by simp
qed

lemma user_get_id: "user_get d i = Some u \<Longrightarrow> u_id u = i"
  unfolding user_get_def by (drule first_filter_Some) simp

section \<open>The client dashboard shows the client's own projects\<close>

text \<open>
  C1. When the session holds the id \<open>i\<close> of a user whose role is \<open>client\<close>, the dashboard
  handler renders exactly the rows of the projects table whose \<open>client_id\<close> is \<open>i\<close>, in
  table order, whatever else the database holds. The only queries are the loading of the
  user and the selection by \<open>client_id\<close>.
\<close>

theorem client_dashboard_own_projects:
  assumes "user_get d i = Some u" and "role u = ''client''"
  shows "client_dashboard d (Some i) =
           reply (Render (Dashboard_html (name u) (filter (\<lambda>p. client_id p = i) (projects d))))
             [] (Some i) d [Get_user i, Select_projects_by_client i]"
  using assms user_get_id [OF assms(1)]
  by (simp add: client_dashboard_def handler_defs projects_by_client_def)

theorem client_dashboard_own_projects_witness:
  "client_dashboard example_db (Some 2) =
     reply (Render (Dashboard_html ''Ana''
        [\<lparr>p_id = 1, p_name = ''Web'', status = ''Pendiente'',
           start_date = Some (Date 2024 1 1), client_id = 2\<rparr>,
         \<lparr>p_id = 3, p_name = ''Red'', status = ''Completado'',
           start_date = Some (Date 2024 1 2), client_id = 2\<rparr>]))
       [] (Some 2) example_db [Get_user 2, Select_projects_by_client 2]"
  using client_dashboard_own_projects [of example_db 2 "users example_db ! 1"]
  by (simp add: example_db_def user_get_def first_def)

section \<open>Registering an email twice\<close>

text \<open>
  C4. When the users table holds a row with the email submitted, \<open>register\<close> flashes the
  duplicate-email error, redirects back to the registration page and returns the database
  as it was: no row is added.
\<close>

theorem register_duplicate_email:
  assumes "\<exists>u \<in> set (users d). email u = em"
  shows "register generate_password_hash salt POST (register_form em nm pw) d s =
           reply (Redirect ''register'') [(msg_duplicate, ''error'')] s d
             [Select_users_by_email em]"
proof -
  from assms have "filter (\<lambda>u. email u = em) (users d) \<noteq> []"
    by (simp add: filter_empty_conv)
  then obtain u us where "users_by_email d em = u # us"
    by (cases "filter (\<lambda>u. email u = em) (users d)") (simp_all add: users_by_email_def)
  then show ?thesis
    by (simp add: register_def register_form_def first_def)
qed

theorem register_duplicate_email_witness:
  "store (register example_hash ''na'' POST
            (register_form ''c@x.com'' ''Otra'' ''pw9'') example_db None) = example_db
   \<and> response (register example_hash ''na'' POST
            (register_form ''c@x.com'' ''Otra'' ''pw9'') example_db None) = Redirect ''register''"
  using register_duplicate_email [of example_db "''c@x.com''" example_hash "''na''"
      "''Otra''" "''pw9''" None]
  by (simp add: example_db_def reply_def)

section \<open>Requests without an authenticated session\<close>

text \<open>
  C6. When the session identifies no user (it is empty, or its id is of no row), both
  \<open>/dashboard\<close> and \<open>/admin\<close> answer with the redirect to the login page and the login
  message; the database is unchanged, and the only query sent is the loading of the user:
  none reads projects or clients.
\<close>

theorem unauthenticated_redirects_to_login:
  assumes "current_user d s = None"
  shows "client_dashboard d s =
           reply (Redirect ''login'') [(login_message, ''message'')] s d (load_queries s)
       \<and> admin_dashboard d s =
           reply (Redirect ''login'') [(login_message, ''message'')] s d (load_queries s)
       \<and> \<not> list_ex data_query (load_queries s)"
  using assms
  by (simp add: client_dashboard_def admin_dashboard_def login_required_def load_queries_def
      split: option.splits)

theorem unauthenticated_redirects_to_login_witness:
  "response (client_dashboard example_db None) = Redirect ''login''
   \<and> response (admin_dashboard example_db (Some 9)) = Redirect ''login''
   \<and> queries (client_dashboard example_db None) = []
   \<and> queries (admin_dashboard example_db (Some 9)) = [Get_user 9]"
  using unauthenticated_redirects_to_login [of example_db None]
    unauthenticated_redirects_to_login [of example_db "Some 9"]
  by (simp add: example_db_def handler_defs user_get_def first_def)

section \<open>Failed logins\<close>



section \<open>A role that is neither client nor admin\<close>

text \<open>
  C10. An authenticated user whose role is neither \<open>client\<close> nor \<open>admin\<close> is denied by both
  dashboards: each flashes \<open>msg_unauthorized\<close> and redirects to the index, with no query
  but the loading of the user.
\<close>

theorem role_outside_both_sees_no_dashboard:
  assumes "current_user d s = Some u" and "role u \<noteq> ''client''" and "role u \<noteq> ''admin''"
  shows "client_dashboard d s =
           reply (Redirect ''index'') [(msg_unauthorized, ''error'')] s d (load_queries s)
       \<and> admin_dashboard d s =
           reply (Redirect ''index'') [(msg_unauthorized, ''error'')] s d (load_queries s)
       \<and> \<not> list_ex data_query (load_queries s)"
  using assms
  by (simp add: client_dashboard_def admin_dashboard_def login_required_def load_queries_def
      split: option.splits)

theorem role_outside_both_sees_no_dashboard_witness:
  "client_dashboard example_db (Some 4) =
     reply (Redirect ''index'') [(msg_unauthorized, ''error'')] (Some 4) example_db [Get_user 4]
   \<and> admin_dashboard example_db (Some 4) =
     reply (Redirect ''index'') [(msg_unauthorized, ''error'')] (Some 4) example_db [Get_user 4]"
  using role_outside_both_sees_no_dashboard [of example_db "Some 4" "users example_db ! 3"]
  by (simp add: example_db_def current_user_def user_get_def first_def load_queries_def)

section \<open>Role checks of the four protected handlers\<close>

text \<open>
  C7. With the session of the client Ana (id 2), \<open>create_client\<close> and \<open>create_project\<close>
  redirect to the index and flash nothing (lines 160, 161, 187 and 188), where the admin
  dashboard, for the same session, flashes \<open>msg_unauthorized\<close> with its redirect (lines 144
  to 146). No handler raises.
\<close>

theorem create_routes_deny_without_message:
  "create_client example_hash ''na'' (client_form ''Ana'' ''Paz'' ''n@x.com'' ''pw'' ''X'')
       example_db (Some 2) = reply (Redirect ''index'') [] (Some 2) example_db [Get_user 2]
   \<and> create_project (\<lambda>t. None) (project_form ''P'' ''Pendiente'' ''2024-03-15'' ''2'')
       example_db (Some 2) = reply (Redirect ''index'') [] (Some 2) example_db [Get_user 2]
   \<and> flashed (admin_dashboard example_db (Some 2)) = [(msg_unauthorized, ''error'')]"
  by (simp add: create_client_def create_project_def admin_dashboard_def handler_defs
      example_db_def user_get_def first_def)

section \<open>The admin dashboard\<close>













section \<open>Creating a project\<close>









section \<open>Registration, then login\<close>








section \<open>Stored passwords\<close>






end
